theory Spec2Isabelle
  imports Main
begin

section \<open>The stream socket server of sockets/us_xfr_sv.c\<close>

text \<open>
  The program creates a UNIX domain stream socket, binds it to a path, listens, and then
  serves one client after the other, copying every byte a client sends to standard output.

  It is modelled as a function of what the operating system answers: a script, the list of
  the results of the system calls in the order in which the program makes them. The function
  returns the trace (every call with its arguments and its result, and every diagnostic
  printed) and the way the run ends: the process has exited with a status, or the script is
  used up and the process waits inside its next system call.
\<close>

subsection \<open>Data\<close>

type_synonym byte = char

text \<open>
  The result of one system call as the caller sees it: the return value, the value of
  \<open>errno\<close> after the call (meaningful when the return value is \<open>-1\<close>), and, for
  \<open>read\<close>, the bytes the kernel stored in the caller's buffer. The program only compares
  return values (\<open>int\<close> and \<open>ssize_t\<close>) and never computes with them, so they are
  integers without a width.
\<close>

record sysret =
  rv :: int
  err :: int
  dat :: "byte list"

text \<open>
  \<open>struct sockaddr_un\<close>: the address family and the path array. The third argument of
  \<open>bind\<close>, the size of the structure, is a constant of the platform and is left out of
  the call.
\<close>

record sockaddr_un =
  sun_family :: int
  sun_path :: "byte list"

datatype syscall =
    Socket int int int
  | Remove "byte list"
  | Bind int sockaddr_un
  | Listen int int
  | Accept int
  | Read int nat
  | Write int "byte list"
  | Close int

text \<open>
  A line on standard error, by the error function that printed it.
\<close>

datatype diag = ErrExit string | Fatal string | ErrMsg string

datatype event = Call syscall sysret | Diag diag

text \<open>
  \<open>Exit n\<close>: the process has terminated with status \<open>n\<close>. \<open>Blocked c\<close>: the script
  holds no result for the call \<open>c\<close>, in which the process is waiting.
\<close>

datatype outcome = Exit int | Blocked syscall

text \<open>
  How the inner \<open>while\<close> loop is left: \<open>Fell numRead buf rest\<close> when its condition is
  false (control reaches line 78 with that \<open>numRead\<close>, that buffer and the rest of the
  script), \<open>Halt\<close> when the process ends or waits inside the loop.
\<close>

datatype loop_end = Fell int "byte list" "sysret list" | Halt outcome

text \<open>
  The header us_xfr.h is not among the sources, so the values it fixes are parameters:
  \<open>SV_SOCK_PATH\<close> (the bytes of the string literal; the terminating NUL is implied) and
  \<open>BUF_SIZE\<close>. \<open>sun_path_size\<close> is \<open>sizeof(addr.sun_path)\<close> of the platform's
  \<open><sys/un.h>\<close>; a C array has at least one element, and for such a size
  \<open>sizeof(addr.sun_path) - 1\<close> is the difference of natural numbers written below.
\<close>

record config =
  SV_SOCK_PATH :: "byte list"
  BUF_SIZE :: nat
  sun_path_size :: nat

text \<open>
  Constants of the system headers, with their Linux values; \<open>BACKLOG\<close> is defined in
  the source (line 25).
\<close>

definition AF_UNIX :: int where "AF_UNIX = 1"

definition SOCK_STREAM :: int where "SOCK_STREAM = 1"

definition STDOUT_FILENO :: int where "STDOUT_FILENO = 1"

definition ENOENT :: int where "ENOENT = 2"

definition BACKLOG :: int where "BACKLOG = 5"

definition NUL :: byte where "NUL = CHR 0x00"

subsection \<open>Library functions\<close>

text \<open>
  \<open>emit es k\<close> puts the events \<open>es\<close> in front of the trace of the continuation
  \<open>k\<close>.
\<close>

definition emit :: "event list \<Rightarrow> event list \<times> 'a \<Rightarrow> event list \<times> 'a" where
  "emit es k = (es @ fst k, snd k)"

text \<open>
  Modelled from the spec: \<open>errExit\<close>, \<open>fatal\<close> and \<open>errMsg\<close> of the repository's
  error library (lib/error_functions.c), which is not among the sources. By the spec's error
  handling design a fatal condition is surfaced with a diagnostic and a non-zero exit, and a
  logged condition is reported and does not interrupt the accept loop: \<open>errExit\<close> and
  \<open>fatal\<close> print their message and terminate the process with \<open>EXIT_FAILURE\<close>,
  \<open>errMsg\<close> prints its message and returns.
\<close>

definition EXIT_FAILURE :: int where "EXIT_FAILURE = 1"

definition errExit :: "string \<Rightarrow> event list \<times> outcome" where
  "errExit msg = ([Diag (ErrExit msg)], Exit EXIT_FAILURE)"

definition fatal :: "string \<Rightarrow> event list \<times> outcome" where
  "fatal msg = ([Diag (Fatal msg)], Exit EXIT_FAILURE)"

definition errMsg :: "string \<Rightarrow> event list" where
  "errMsg msg = [Diag (ErrMsg msg)]"

text \<open>
  The C string held in an array is what precedes its first NUL. \<open>strncpy dest src n\<close>
  writes exactly \<open>n\<close> bytes to the start of \<open>dest\<close>: the first \<open>n\<close> bytes of the
  string, followed by NULs when the string is shorter.
\<close>

definition cstr :: "byte list \<Rightarrow> byte list" where
  "cstr s = takeWhile (\<lambda>c. c \<noteq> NUL) s"

definition strlen :: "byte list \<Rightarrow> nat" where
  "strlen s = length (cstr s)"

definition strncpy :: "byte list \<Rightarrow> byte list \<Rightarrow> nat \<Rightarrow> byte list" where
  "strncpy dest src n =
     (let s = take n (cstr src) in s @ replicate (n - length s) NUL @ drop n dest)"

text \<open>
  \<open>read(fd, buf, count)\<close> stores no more than \<open>count\<close> bytes, at the start of
  \<open>buf\<close>, and leaves the rest of \<open>buf\<close> as it was.
\<close>

definition kernel_copy :: "nat \<Rightarrow> byte list \<Rightarrow> byte list \<Rightarrow> byte list" where
  "kernel_copy count buf d = (let d' = take count d in d' @ drop (length d') buf)"

subsection \<open>The program\<close>

text \<open>
  Lines 74 to 76, the transfer loop:
  \<^verbatim>\<open>while ((numRead = read(cfd, buf, BUF_SIZE)) > 0)\<close>
  \<^verbatim>\<open>    if (write(STDOUT_FILENO, buf, numRead) != numRead)\<close>
  \<^verbatim>\<open>        fatal("partial/failed write");\<close>
\<close>

fun relay :: "config \<Rightarrow> int \<Rightarrow> byte list \<Rightarrow> sysret list \<Rightarrow> event list \<times> loop_end" where
  "relay cfg cfd buf [] = ([], Halt (Blocked (Read cfd (BUF_SIZE cfg))))"
| "relay cfg cfd buf (r # rs) =
     emit [Call (Read cfd (BUF_SIZE cfg)) r]
       (let buf' = kernel_copy (BUF_SIZE cfg) buf (dat r); numRead = rv r in
        if numRead > 0 then
          (case rs of
             [] \<Rightarrow> ([], Halt (Blocked (Write STDOUT_FILENO (take (nat numRead) buf'))))
           | w # rs' \<Rightarrow>
               emit [Call (Write STDOUT_FILENO (take (nat numRead) buf')) w]
                 (if rv w \<noteq> numRead then
                    (fst (fatal ''partial/failed write''), Halt (snd (fatal ''partial/failed write'')))
                  else relay cfg cfd buf' rs'))
        else ([], Fell numRead buf' rs))"

text \<open>
  Lines 62 to 83, the accept loop: accept, transfer, \<open>errExit("read")\<close> when the loop
  was left with \<open>numRead = -1\<close>, close (a failure is reported by \<open>errMsg\<close>), and
  again. Each turn uses up at least the result of \<open>accept\<close>, which is why the recursion
  ends on every script.
\<close>

function serve :: "config \<Rightarrow> int \<Rightarrow> byte list \<Rightarrow> sysret list \<Rightarrow> event list \<times> outcome" where
  "serve cfg sfd buf [] = ([], Blocked (Accept sfd))"
| "serve cfg sfd buf (a # rs) =
     emit [Call (Accept sfd) a]
       (let cfd = rv a in
        if cfd = -1 then errExit ''accept''
        else
          (case relay cfg cfd buf rs of
             (t, Halt out) \<Rightarrow> (t, out)
           | (t, Fell numRead buf' rs') \<Rightarrow>
               emit t
                 (if numRead = -1 then errExit ''read''
                  else
                    (case rs' of
                       [] \<Rightarrow> ([], Blocked (Close cfd))
                     | c # rs'' \<Rightarrow>
                         emit (Call (Close cfd) c # (if rv c = -1 then errMsg ''close'' else []))
                           (serve cfg sfd buf' rs'')))))"
  by pat_completeness auto

termination
proof -
  have shorter: "length rs' \<le> length rs"
    if "relay cfg cfd buf rs = (t, Fell n b rs')" for cfg cfd buf rs t n b rs'
    using that
  proof (induction cfg cfd buf rs arbitrary: t rule: relay.induct)
    case (1 cfg cfd buf)
    then show ?case by simp
  next
    case (2 cfg cfd buf r rs)
    show ?case
    proof (cases "rv r > 0")
      case False
      with "2.prems" show ?thesis by (simp add: emit_def)
    next
      case True
      note pos = this
      show ?thesis
      proof (cases rs)
        case Nil
        with "2.prems" pos show ?thesis by (simp add: emit_def)
      next
        case (Cons w rs2)
        show ?thesis
        proof (cases "rv w = rv r")
          case False
          with "2.prems" pos Cons show ?thesis by (simp add: emit_def)
        next
          case True
          obtain t2 e2 where r2: "relay cfg cfd (kernel_copy (BUF_SIZE cfg) buf (dat r)) rs2 = (t2, e2)"
            by (cases "relay cfg cfd (kernel_copy (BUF_SIZE cfg) buf (dat r)) rs2")
          with "2.prems" pos Cons True have "e2 = Fell n b rs'"
            by (simp add: emit_def)
          with r2 have "length rs' \<le> length rs2"
            using "2.IH" [OF refl refl pos Cons _ ] True by simp
          with Cons show ?thesis by simp
        qed
      qed
    qed
  qed
  show ?thesis
  proof (relation "measure (\<lambda>(cfg, sfd, buf, rs). length rs)")
    show "wf (measure (\<lambda>(cfg :: config, sfd :: int, buf :: byte list, rs :: sysret list). length rs))"
      by simp
  next
    fix cfg :: config and sfd :: int and buf a rs x xa y x11 x12 x13 x21 x22
    assume "(xa, y) = relay cfg x buf rs" "y = Fell x11 x12 x13" "x13 = x21 # x22"
    then have "length (x21 # x22) \<le> length rs"
      using shorter [of cfg x buf rs xa x11 x12 "x21 # x22"] by simp
    then show "((cfg, sfd, x12, x22), cfg, sfd, buf, a # rs)
        \<in> measure (\<lambda>(cfg, sfd, buf, rs). length rs)"
      by simp
  qed
qed

text \<open>
  Lines 52 to 54: the structure is cleared, the family set, and the path copied with
  \<open>strncpy\<close> and the bound \<open>sizeof(addr.sun_path) - 1\<close>.
\<close>

definition server_addr :: "config \<Rightarrow> sockaddr_un" where
  "server_addr cfg =
     (let addr0 = \<lparr>sun_family = 0, sun_path = replicate (sun_path_size cfg) NUL\<rparr>;
          addr1 = addr0\<lparr>sun_family := AF_UNIX\<rparr>
      in addr1\<lparr>sun_path :=
           strncpy (sun_path addr1) (SV_SOCK_PATH cfg) (sun_path_size cfg - 1)\<rparr>)"

text \<open>
  Lines 35 to 60, then the accept loop. \<open>buf0\<close> is the indeterminate initial content of
  the local array \<open>buf\<close>.
\<close>

definition main :: "config \<Rightarrow> byte list \<Rightarrow> sysret list \<Rightarrow> event list \<times> outcome" where
  "main cfg buf0 script =
     (case script of
        [] \<Rightarrow> ([], Blocked (Socket AF_UNIX SOCK_STREAM 0))
      | s # rs1 \<Rightarrow>
          emit [Call (Socket AF_UNIX SOCK_STREAM 0) s]
            (let sfd = rv s in
             if sfd = -1 then errExit ''socket''
             else if strlen (SV_SOCK_PATH cfg) > sun_path_size cfg - 1 then
               fatal (''Server socket path too long: '' @ cstr (SV_SOCK_PATH cfg))
             else
               (case rs1 of
                  [] \<Rightarrow> ([], Blocked (Remove (cstr (SV_SOCK_PATH cfg))))
                | r # rs2 \<Rightarrow>
                    emit [Call (Remove (cstr (SV_SOCK_PATH cfg))) r]
                      (if rv r = -1 \<and> err r \<noteq> ENOENT then
                         errExit (''remove-'' @ cstr (SV_SOCK_PATH cfg))
                       else
                         (case rs2 of
                            [] \<Rightarrow> ([], Blocked (Bind sfd (server_addr cfg)))
                          | b # rs3 \<Rightarrow>
                              emit [Call (Bind sfd (server_addr cfg)) b]
                                (if rv b = -1 then errExit ''bind''
                                 else
                                   (case rs3 of
                                      [] \<Rightarrow> ([], Blocked (Listen sfd BACKLOG))
                                    | l # rs4 \<Rightarrow>
                                        emit [Call (Listen sfd BACKLOG) l]
                                          (if rv l = -1 then errExit ''listen''
                                           else serve cfg sfd buf0 rs4))))))))"

subsection \<open>What a trace shows\<close>

text \<open>
  \<open>write\<close> returns how many of the bytes it was given have been taken: the sink holds,
  in order, that prefix of every write to standard output.
\<close>

fun written :: "int \<Rightarrow> event \<Rightarrow> byte list" where
  "written fd (Call (Write fd' bs) r) = (if fd' = fd then take (nat (rv r)) bs else [])"
| "written fd _ = []"

definition sink_of :: "event list \<Rightarrow> byte list" where
  "sink_of t = concat (map (written STDOUT_FILENO) t)"

text \<open>
  The descriptors of the sockets that \<open>socket\<close> has created, and the lines printed on
  standard error.
\<close>

fun created :: "event \<Rightarrow> int list" where
  "created (Call (Socket d ty pr) r) = (if rv r = -1 then [] else [rv r])"
| "created _ = []"

definition sockets_created :: "event list \<Rightarrow> int list" where
  "sockets_created t = concat (map created t)"

fun stderr_line :: "event \<Rightarrow> diag list" where
  "stderr_line (Diag d) = [d]"
| "stderr_line _ = []"

definition stderr_of :: "event list \<Rightarrow> diag list" where
  "stderr_of t = concat (map stderr_line t)"

subsection \<open>Scripts\<close>

text \<open>
  A positive result of \<open>read\<close> is the number of bytes stored, which is no more than
  the count asked for. A list \<open>io\<close> of pairs (result of a read, result of the write that
  follows it) is \<open>forwarded\<close> when every read delivers a chunk in this way and every
  write takes the whole chunk. The chunks are the client's byte stream as the transport
  happens to cut it; \<open>payload io\<close> is that stream.
\<close>

definition wf_read :: "config \<Rightarrow> sysret \<Rightarrow> bool" where
  "wf_read cfg r \<longleftrightarrow> 0 < rv r \<and> rv r = int (length (dat r)) \<and> length (dat r) \<le> BUF_SIZE cfg"

definition forwarded :: "config \<Rightarrow> (sysret \<times> sysret) list \<Rightarrow> bool" where
  "forwarded cfg io = list_all (\<lambda>(r, w). wf_read cfg r \<and> rv w = rv r) io"

definition pass_script :: "(sysret \<times> sysret) list \<Rightarrow> sysret list" where
  "pass_script io = concat (map (\<lambda>(r, w). [r, w]) io)"

definition pass_trace :: "config \<Rightarrow> int \<Rightarrow> (sysret \<times> sysret) list \<Rightarrow> event list" where
  "pass_trace cfg cfd io =
     concat (map (\<lambda>(r, w). [Call (Read cfd (BUF_SIZE cfg)) r,
                             Call (Write STDOUT_FILENO (dat r)) w]) io)"

definition pass_buf :: "config \<Rightarrow> byte list \<Rightarrow> (sysret \<times> sysret) list \<Rightarrow> byte list" where
  "pass_buf cfg buf io = foldl (\<lambda>b (r, w). kernel_copy (BUF_SIZE cfg) b (dat r)) buf io"

definition payload :: "(sysret \<times> sysret) list \<Rightarrow> byte list" where
  "payload io = concat (map (\<lambda>(r, w). dat r) io)"

text \<open>
  One connection served to its end: \<open>accept\<close> succeeds, the chunks are forwarded, a
  read returns 0, and \<open>close\<close> returns anything. \<open>conn_trace\<close> is the trace that
  such a connection is shown below to leave, \<open>conn_buf\<close> the content of the buffer
  after it.
\<close>

record conn =
  c_accept :: sysret
  c_io :: "(sysret \<times> sysret) list"
  c_eof :: sysret
  c_close :: sysret

definition conn_ok :: "config \<Rightarrow> conn \<Rightarrow> bool" where
  "conn_ok cfg c \<longleftrightarrow> rv (c_accept c) \<noteq> -1 \<and> forwarded cfg (c_io c) \<and> rv (c_eof c) = 0"

definition conn_script :: "conn \<Rightarrow> sysret list" where
  "conn_script c = c_accept c # pass_script (c_io c) @ [c_eof c, c_close c]"

definition conn_trace :: "config \<Rightarrow> int \<Rightarrow> conn \<Rightarrow> event list" where
  "conn_trace cfg sfd c =
     Call (Accept sfd) (c_accept c) #
     pass_trace cfg (rv (c_accept c)) (c_io c) @
     [Call (Read (rv (c_accept c)) (BUF_SIZE cfg)) (c_eof c),
      Call (Close (rv (c_accept c))) (c_close c)] @
     (if rv (c_close c) = -1 then [Diag (ErrMsg ''close'')] else [])"

definition conn_buf :: "config \<Rightarrow> byte list \<Rightarrow> conn \<Rightarrow> byte list" where
  "conn_buf cfg buf c = kernel_copy (BUF_SIZE cfg) (pass_buf cfg buf (c_io c)) (dat (c_eof c))"

definition conns_script :: "conn list \<Rightarrow> sysret list" where
  "conns_script cs = concat (map conn_script cs)"

definition conns_trace :: "config \<Rightarrow> int \<Rightarrow> conn list \<Rightarrow> event list" where
  "conns_trace cfg sfd cs = concat (map (conn_trace cfg sfd) cs)"

definition conns_buf :: "config \<Rightarrow> byte list \<Rightarrow> conn list \<Rightarrow> byte list" where
  "conns_buf cfg buf cs = foldl (conn_buf cfg) buf cs"

text \<open>
  A start-up in which every step succeeds: the four results of \<open>socket\<close>,
  \<open>remove\<close>, \<open>bind\<close> and \<open>listen\<close>, with the path short enough.
\<close>

record startup =
  s_socket :: sysret
  s_remove :: sysret
  s_bind :: sysret
  s_listen :: sysret

definition setup_ok :: "config \<Rightarrow> startup \<Rightarrow> bool" where
  "setup_ok cfg st \<longleftrightarrow>
     rv (s_socket st) \<noteq> -1 \<and>
     strlen (SV_SOCK_PATH cfg) \<le> sun_path_size cfg - 1 \<and>
     (rv (s_remove st) \<noteq> -1 \<or> err (s_remove st) = ENOENT) \<and>
     rv (s_bind st) \<noteq> -1 \<and>
     rv (s_listen st) \<noteq> -1"

definition setup_script :: "startup \<Rightarrow> sysret list" where
  "setup_script st = [s_socket st, s_remove st, s_bind st, s_listen st]"

definition setup_trace :: "config \<Rightarrow> startup \<Rightarrow> event list" where
  "setup_trace cfg st =
     [Call (Socket AF_UNIX SOCK_STREAM 0) (s_socket st),
      Call (Remove (cstr (SV_SOCK_PATH cfg))) (s_remove st),
      Call (Bind (rv (s_socket st)) (server_addr cfg)) (s_bind st),
      Call (Listen (rv (s_socket st)) BACKLOG) (s_listen st)]"

text \<open>
  Concrete results and configurations for the instances below: a call that returns
  \<open>n\<close>, a read that delivers \<open>d\<close>, a call that fails with an \<open>errno\<close>; the
  configuration of the book's header with the Linux path capacity, and one with a path of
  109 bytes.
\<close>

definition ret :: "int \<Rightarrow> sysret" where
  "ret n = \<lparr>rv = n, err = 0, dat = []\<rparr>"

definition got :: "byte list \<Rightarrow> sysret" where
  "got d = \<lparr>rv = int (length d), err = 0, dat = d\<rparr>"

definition failed :: "int \<Rightarrow> sysret" where
  "failed e = \<lparr>rv = -1, err = e, dat = []\<rparr>"

definition demo_cfg :: config where
  "demo_cfg = \<lparr>SV_SOCK_PATH = ''/tmp/us_xfr'', BUF_SIZE = 4096, sun_path_size = 108\<rparr>"

definition demo_setup :: startup where
  "demo_setup = \<lparr>s_socket = ret 3, s_remove = failed ENOENT, s_bind = ret 0, s_listen = ret 0\<rparr>"

definition demo_conn :: "byte list list \<Rightarrow> int \<Rightarrow> sysret \<Rightarrow> conn" where
  "demo_conn chunks fd cl =
     \<lparr>c_accept = ret fd, c_io = map (\<lambda>d. (got d, ret (int (length d)))) chunks,
      c_eof = ret 0, c_close = cl\<rparr>"

definition long_cfg :: config where
  "long_cfg = \<lparr>SV_SOCK_PATH = ''/tmp/'' @ replicate 104 (CHR ''x''), BUF_SIZE = 4096,
     sun_path_size = 108\<rparr>"

section \<open>Properties\<close>

subsection \<open>The transfer loop\<close>

lemma emit_emit: "emit xs (emit ys k) = emit (xs @ ys) k"
  by (simp add: emit_def)

lemma emit_pair: "emit xs (t, e) = (xs @ t, e)"
  by (simp add: emit_def)

lemma relay_forward:
  assumes "forwarded cfg io"
  shows "relay cfg cfd buf (pass_script io @ rest) =
           emit (pass_trace cfg cfd io) (relay cfg cfd (pass_buf cfg buf io) rest)"
  using assms
proof (induction io arbitrary: buf)
  case Nil
  then show ?case by (simp add: pass_script_def pass_trace_def pass_buf_def emit_def)
next
  case (Cons p io)
  obtain r w where p: "p = (r, w)" by (cases p)
  from Cons.prems p have wf: "wf_read cfg r" and full: "rv w = rv r" and rest: "forwarded cfg io"
    by (simp_all add: forwarded_def)
  from wf have tk: "take (nat (rv r)) (kernel_copy (BUF_SIZE cfg) buf (dat r)) = dat r"
    by (simp add: wf_read_def kernel_copy_def Let_def)
  from wf have pos: "rv r > 0" unfolding wf_read_def by blast
  have "relay cfg cfd buf (pass_script (p # io) @ rest) =
        relay cfg cfd buf (r # w # pass_script io @ rest)"
    by (simp add: p pass_script_def)
  also have "\<dots> = emit [Call (Read cfd (BUF_SIZE cfg)) r, Call (Write STDOUT_FILENO (dat r)) w]
      (relay cfg cfd (kernel_copy (BUF_SIZE cfg) buf (dat r)) (pass_script io @ rest))"
    using pos full tk by (simp add: emit_def Let_def)
  also have "\<dots> = emit (pass_trace cfg cfd (p # io)) (relay cfg cfd (pass_buf cfg buf (p # io)) rest)"
    by (simp add: Cons.IH [OF rest] p pass_trace_def pass_buf_def emit_def)
  finally show ?case .
qed

lemma relay_eof:
  assumes "forwarded cfg io" and "rv e \<le> 0"
  shows "relay cfg cfd buf (pass_script io @ e # rest) =
           (pass_trace cfg cfd io @ [Call (Read cfd (BUF_SIZE cfg)) e],
            Fell (rv e) (kernel_copy (BUF_SIZE cfg) (pass_buf cfg buf io) (dat e)) rest)"
  using assms by (simp add: relay_forward emit_def Let_def)

lemma relay_mismatch:
  assumes "forwarded cfg io" and "wf_read cfg r" and "rv w \<noteq> rv r"
  shows "relay cfg cfd buf (pass_script io @ r # w # rest) =
           (pass_trace cfg cfd io @
              [Call (Read cfd (BUF_SIZE cfg)) r,
               Call (Write STDOUT_FILENO (dat r)) w,
               Diag (Fatal ''partial/failed write'')],
            Halt (Exit EXIT_FAILURE))"
proof -
  from assms(2) have tk: "take (nat (rv r)) (kernel_copy (BUF_SIZE cfg) (pass_buf cfg buf io) (dat r)) = dat r"
    by (simp add: wf_read_def kernel_copy_def Let_def)
  from assms(2) have pos: "rv r > 0" unfolding wf_read_def by blast
  show ?thesis
    using assms(3) pos tk by (simp add: relay_forward [OF assms(1)] emit_def fatal_def Let_def)
qed

text \<open>
  Conversely, every run of the loop that falls through has used up a script of that shape:
  pairs of a positive read and a write of the same count, then a read that is not positive.
\<close>

lemma relay_fell_shape:
  assumes "relay cfg cfd buf script = (t, Fell n b rest)"
  shows "\<exists>io e. script = pass_script io @ e # rest \<and>
           list_all (\<lambda>(r, w). 0 < rv r \<and> rv w = rv r) io \<and> rv e = n \<and> n \<le> 0"
  using assms
proof (induction cfg cfd buf script arbitrary: t rule: relay.induct)
  case (1 cfg cfd buf)
  then show ?case by simp
next
  case (2 cfg cfd buf r rs)
  show ?case
  proof (cases "rv r > 0")
    case False
    with "2.prems" have "rs = rest" and "rv r = n" by (simp_all add: emit_def)
    with False have "r # rs = pass_script [] @ r # rest \<and>
        list_all (\<lambda>(r, w). 0 < rv r \<and> rv w = rv r) [] \<and> rv r = n \<and> n \<le> 0"
      by (simp add: pass_script_def)
    then show ?thesis by blast
  next
    case True
    note pos = this
    show ?thesis
    proof (cases rs)
      case Nil
      with "2.prems" pos show ?thesis by (simp add: emit_def)
    next
      case (Cons w rs2)
      show ?thesis
      proof (cases "rv w = rv r")
        case False
        with "2.prems" pos Cons show ?thesis by (simp add: emit_def)
      next
        case True
        obtain t2 e2 where r2: "relay cfg cfd (kernel_copy (BUF_SIZE cfg) buf (dat r)) rs2 = (t2, e2)"
          by (cases "relay cfg cfd (kernel_copy (BUF_SIZE cfg) buf (dat r)) rs2")
        with "2.prems" pos Cons True have "e2 = Fell n b rest"
          by (simp add: emit_def)
        with r2 obtain io e where io: "rs2 = pass_script io @ e # rest"
            "list_all (\<lambda>(r, w). 0 < rv r \<and> rv w = rv r) io" "rv e = n" "n \<le> 0"
          using "2.IH" [OF refl refl pos Cons _ ] True by auto
        with Cons pos True have "r # rs = pass_script ((r, w) # io) @ e # rest \<and>
            list_all (\<lambda>(r, w). 0 < rv r \<and> rv w = rv r) ((r, w) # io) \<and> rv e = n \<and> n \<le> 0"
          by (simp add: pass_script_def)
        then show ?thesis by blast
      qed
    qed
  qed
qed

subsection \<open>The accept loop and start-up\<close>

lemma serve_conn:
  assumes "conn_ok cfg c"
  shows "serve cfg sfd buf (conn_script c @ rest) =
           emit (conn_trace cfg sfd c) (serve cfg sfd (conn_buf cfg buf c) rest)"
proof -
  from assms have a: "rv (c_accept c) \<noteq> -1" and f: "forwarded cfg (c_io c)" and e: "rv (c_eof c) = 0"
    by (simp_all add: conn_ok_def)
  have r: "relay cfg (rv (c_accept c)) buf (pass_script (c_io c) @ c_eof c # c_close c # rest) =
      (pass_trace cfg (rv (c_accept c)) (c_io c) @ [Call (Read (rv (c_accept c)) (BUF_SIZE cfg)) (c_eof c)],
       Fell 0 (conn_buf cfg buf c) (c_close c # rest))"
    using relay_eof [OF f, of "c_eof c" "rv (c_accept c)" buf "c_close c # rest"] e
    by (simp add: conn_buf_def)
  show ?thesis
    using a r by (simp add: conn_script_def conn_trace_def emit_def errMsg_def Let_def)
qed

lemma serve_conns:
  assumes "\<forall>c \<in> set cs. conn_ok cfg c"
  shows "serve cfg sfd buf (conns_script cs @ rest) =
           emit (conns_trace cfg sfd cs) (serve cfg sfd (conns_buf cfg buf cs) rest)"
  using assms
proof (induction cs arbitrary: buf)
  case Nil
  then show ?case by (simp add: conns_script_def conns_trace_def conns_buf_def emit_def)
next
  case (Cons c cs)
  from Cons.prems have c: "conn_ok cfg c" and cs: "\<forall>c \<in> set cs. conn_ok cfg c" by simp_all
  have "serve cfg sfd buf (conns_script (c # cs) @ rest) =
        serve cfg sfd buf (conn_script c @ (conns_script cs @ rest))"
    by (simp add: conns_script_def)
  also have "\<dots> = emit (conn_trace cfg sfd c)
      (serve cfg sfd (conn_buf cfg buf c) (conns_script cs @ rest))"
    by (rule serve_conn [OF c])
  also have "\<dots> = emit (conn_trace cfg sfd c)
      (emit (conns_trace cfg sfd cs) (serve cfg sfd (conns_buf cfg (conn_buf cfg buf c) cs) rest))"
    by (simp only: Cons.IH [OF cs])
  also have "\<dots> = emit (conns_trace cfg sfd (c # cs)) (serve cfg sfd (conns_buf cfg buf (c # cs)) rest)"
    by (simp add: emit_emit conns_trace_def conns_buf_def)
  finally show ?case .
qed

lemma serve_eof_close:
  assumes "rv a \<noteq> -1" and "forwarded cfg io" and "rv e = 0"
  shows "serve cfg sfd buf (a # pass_script io @ e # c # rest) =
           emit (Call (Accept sfd) a # pass_trace cfg (rv a) io @
                 [Call (Read (rv a) (BUF_SIZE cfg)) e, Call (Close (rv a)) c] @
                 (if rv c = -1 then [Diag (ErrMsg ''close'')] else []))
             (serve cfg sfd (kernel_copy (BUF_SIZE cfg) (pass_buf cfg buf io) (dat e)) rest)"
proof -
  let ?k = "\<lparr>c_accept = a, c_io = io, c_eof = e, c_close = c\<rparr>"
  from assms have "conn_ok cfg ?k" by (simp add: conn_ok_def)
  from serve_conn [OF this, of sfd buf rest] show ?thesis
    by (simp add: conn_script_def conn_trace_def conn_buf_def)
qed

lemma serve_read_error:
  assumes "rv a \<noteq> -1" and "forwarded cfg io" and "rv e = -1"
  shows "serve cfg sfd buf (a # pass_script io @ e # rest) =
           (Call (Accept sfd) a # pass_trace cfg (rv a) io @
              [Call (Read (rv a) (BUF_SIZE cfg)) e, Diag (ErrExit ''read'')],
            Exit EXIT_FAILURE)"
proof -
  have "relay cfg (rv a) buf (pass_script io @ e # rest) =
      (pass_trace cfg (rv a) io @ [Call (Read (rv a) (BUF_SIZE cfg)) e],
       Fell (-1) (kernel_copy (BUF_SIZE cfg) (pass_buf cfg buf io) (dat e)) rest)"
    using relay_eof [OF assms(2), of e "rv a" buf rest] assms(3) by simp
  with assms(1) show ?thesis
    by (simp add: emit_def errExit_def Let_def)
qed

lemma serve_write_mismatch:
  assumes "rv a \<noteq> -1" and "forwarded cfg io" and "wf_read cfg r" and "rv w \<noteq> rv r"
  shows "serve cfg sfd buf (a # pass_script io @ r # w # rest) =
           (Call (Accept sfd) a # pass_trace cfg (rv a) io @
              [Call (Read (rv a) (BUF_SIZE cfg)) r,
               Call (Write STDOUT_FILENO (dat r)) w,
               Diag (Fatal ''partial/failed write'')],
            Exit EXIT_FAILURE)"
  using assms(1) relay_mismatch [OF assms(2,3,4), of "rv a" buf rest]
  by (simp add: emit_def Let_def)

lemma main_setup:
  assumes "setup_ok cfg st"
  shows "main cfg buf0 (setup_script st @ rest) =
           emit (setup_trace cfg st) (serve cfg (rv (s_socket st)) buf0 rest)"
  using assms
  by (auto simp add: main_def setup_ok_def setup_script_def setup_trace_def emit_def Let_def)

lemma main_conns:
  assumes "setup_ok cfg st" and "\<forall>c \<in> set cs. conn_ok cfg c"
  shows "main cfg buf0 (setup_script st @ conns_script cs @ rest) =
           emit (setup_trace cfg st @ conns_trace cfg (rv (s_socket st)) cs)
             (serve cfg (rv (s_socket st)) (conns_buf cfg buf0 cs) rest)"
  by (simp add: main_setup [OF assms(1)] serve_conns [OF assms(2)] emit_emit)

lemma main_write_mismatch:
  assumes "setup_ok cfg st" and "\<forall>c \<in> set cs. conn_ok cfg c"
    and "rv a \<noteq> -1" and "forwarded cfg io" and "wf_read cfg r" and "rv w \<noteq> rv r"
  shows "main cfg buf0 (setup_script st @ conns_script cs @ a # pass_script io @ r # w # rest) =
           (setup_trace cfg st @ conns_trace cfg (rv (s_socket st)) cs @
              Call (Accept (rv (s_socket st))) a # pass_trace cfg (rv a) io @
              [Call (Read (rv a) (BUF_SIZE cfg)) r,
               Call (Write STDOUT_FILENO (dat r)) w,
               Diag (Fatal ''partial/failed write'')],
            Exit EXIT_FAILURE)"
proof -
  have "main cfg buf0 (setup_script st @ conns_script cs @ a # pass_script io @ r # w # rest) =
      emit (setup_trace cfg st @ conns_trace cfg (rv (s_socket st)) cs)
        (serve cfg (rv (s_socket st)) (conns_buf cfg buf0 cs) (a # pass_script io @ r # w # rest))"
    by (rule main_conns [OF assms(1,2)])
  also have "\<dots> = emit (setup_trace cfg st @ conns_trace cfg (rv (s_socket st)) cs)
      (Call (Accept (rv (s_socket st))) a # pass_trace cfg (rv a) io @
         [Call (Read (rv a) (BUF_SIZE cfg)) r,
          Call (Write STDOUT_FILENO (dat r)) w,
          Diag (Fatal ''partial/failed write'')],
       Exit EXIT_FAILURE)"
    by (simp only: serve_write_mismatch [OF assms(3,4,5,6)])
  finally show ?thesis by (simp add: emit_pair)
qed

lemma main_read_error:
  assumes "setup_ok cfg st" and "\<forall>c \<in> set cs. conn_ok cfg c"
    and "rv a \<noteq> -1" and "forwarded cfg io" and "rv e = -1"
  shows "main cfg buf0 (setup_script st @ conns_script cs @ a # pass_script io @ e # rest) =
           (setup_trace cfg st @ conns_trace cfg (rv (s_socket st)) cs @
              Call (Accept (rv (s_socket st))) a # pass_trace cfg (rv a) io @
              [Call (Read (rv a) (BUF_SIZE cfg)) e, Diag (ErrExit ''read'')],
            Exit EXIT_FAILURE)"
proof -
  have "main cfg buf0 (setup_script st @ conns_script cs @ a # pass_script io @ e # rest) =
      emit (setup_trace cfg st @ conns_trace cfg (rv (s_socket st)) cs)
        (serve cfg (rv (s_socket st)) (conns_buf cfg buf0 cs) (a # pass_script io @ e # rest))"
    by (rule main_conns [OF assms(1,2)])
  also have "\<dots> = emit (setup_trace cfg st @ conns_trace cfg (rv (s_socket st)) cs)
      (Call (Accept (rv (s_socket st))) a # pass_trace cfg (rv a) io @
         [Call (Read (rv a) (BUF_SIZE cfg)) e, Diag (ErrExit ''read'')],
       Exit EXIT_FAILURE)"
    by (simp only: serve_read_error [OF assms(3,4,5)])
  finally show ?thesis by (simp add: emit_pair)
qed

lemma main_too_long:
  assumes "strlen (SV_SOCK_PATH cfg) > sun_path_size cfg - 1"
  shows "main cfg buf0 (s # rest) =
           ([Call (Socket AF_UNIX SOCK_STREAM 0) s,
             Diag (if rv s = -1 then ErrExit ''socket''
                   else Fatal (''Server socket path too long: '' @ cstr (SV_SOCK_PATH cfg)))],
            Exit EXIT_FAILURE)"
  using assms by (simp add: main_def emit_def errExit_def fatal_def Let_def)

lemma main_remove_fails:
  assumes "rv s \<noteq> -1" and "strlen (SV_SOCK_PATH cfg) \<le> sun_path_size cfg - 1"
    and "rv r = -1" and "err r \<noteq> ENOENT"
  shows "main cfg buf0 (s # r # rest) =
           ([Call (Socket AF_UNIX SOCK_STREAM 0) s,
             Call (Remove (cstr (SV_SOCK_PATH cfg))) r,
             Diag (ErrExit (''remove-'' @ cstr (SV_SOCK_PATH cfg)))],
            Exit EXIT_FAILURE)"
  using assms by (simp add: main_def emit_def errExit_def Let_def)

lemma main_reaches_bind:
  assumes "rv s \<noteq> -1" and "strlen (SV_SOCK_PATH cfg) \<le> sun_path_size cfg - 1"
    and "rv r \<noteq> -1 \<or> err r = ENOENT"
  shows "take 3 (fst (main cfg buf0 (s # r # b # rest))) =
           [Call (Socket AF_UNIX SOCK_STREAM 0) s,
            Call (Remove (cstr (SV_SOCK_PATH cfg))) r,
            Call (Bind (rv s) (server_addr cfg)) b]"
  using assms by (auto simp add: main_def emit_def Let_def)

lemma pad_last:
  assumes "l < n"
  shows "replicate (n - 1 - l) x @ [x] = replicate (n - l) x"
proof -
  from assms obtain k where k: "n - l = Suc k"
    by (cases "n - l") simp_all
  then have "n - 1 - l = k" by arith
  with k show ?thesis by (simp add: replicate_append_same)
qed

lemma server_addr_fits:
  assumes "0 < sun_path_size cfg" and "strlen (SV_SOCK_PATH cfg) \<le> sun_path_size cfg - 1"
  shows "server_addr cfg =
           \<lparr>sun_family = AF_UNIX,
            sun_path = cstr (SV_SOCK_PATH cfg) @
              replicate (sun_path_size cfg - strlen (SV_SOCK_PATH cfg)) NUL\<rparr>"
proof -
  let ?n = "sun_path_size cfg" and ?s = "cstr (SV_SOCK_PATH cfg)"
  from assms(2) have len: "length ?s \<le> ?n - 1" by (simp add: strlen_def)
  then have tk: "take (?n - 1) ?s = ?s" by simp
  have "drop (?n - 1) (replicate ?n NUL) = replicate (?n - (?n - 1)) NUL"
    by (rule drop_replicate)
  moreover from assms(1) have "?n - (?n - 1) = 1" by arith
  ultimately have dr: "drop (?n - 1) (replicate ?n NUL) = [NUL]" by simp
  from assms(1) len have "length ?s < ?n" by arith
  then have pad: "replicate (?n - 1 - length ?s) NUL @ [NUL] = replicate (?n - length ?s) NUL"
    by (rule pad_last)
  from dr pad tk show ?thesis
    by (simp add: server_addr_def strncpy_def Let_def strlen_def)
qed

subsection \<open>Sink and standard error\<close>

lemma sink_of_append: "sink_of (xs @ ys) = sink_of xs @ sink_of ys"
  by (simp add: sink_of_def)

lemma sink_of_pass_trace:
  assumes "forwarded cfg io"
  shows "sink_of (pass_trace cfg cfd io) = payload io"
  using assms
  by (induction io) (auto simp: sink_of_def pass_trace_def payload_def forwarded_def wf_read_def)

lemma sink_of_conn_trace:
  assumes "conn_ok cfg c"
  shows "sink_of (conn_trace cfg sfd c) = payload (c_io c)"
proof -
  from assms have "forwarded cfg (c_io c)" by (simp add: conn_ok_def)
  then have "sink_of (pass_trace cfg (rv (c_accept c)) (c_io c)) = payload (c_io c)"
    by (rule sink_of_pass_trace)
  then show ?thesis
    by (simp add: conn_trace_def sink_of_def)
qed

lemma sink_of_conns_trace:
  assumes "\<forall>c \<in> set cs. conn_ok cfg c"
  shows "sink_of (conns_trace cfg sfd cs) = concat (map (\<lambda>c. payload (c_io c)) cs)"
  using assms
proof (induction cs)
  case Nil
  then show ?case by (simp add: conns_trace_def sink_of_def)
next
  case (Cons c cs)
  then have "sink_of (conns_trace cfg sfd cs) = concat (map (\<lambda>c. payload (c_io c)) cs)"
    by simp
  moreover have "sink_of (conn_trace cfg sfd c) = payload (c_io c)"
    using Cons.prems by (simp add: sink_of_conn_trace)
  moreover have "conns_trace cfg sfd (c # cs) = conn_trace cfg sfd c @ conns_trace cfg sfd cs"
    by (simp add: conns_trace_def)
  ultimately show ?case by (simp add: sink_of_append)
qed

lemma sink_of_setup_trace: "sink_of (setup_trace cfg st) = []"
  by (simp add: setup_trace_def sink_of_def)

lemma stderr_of_append: "stderr_of (xs @ ys) = stderr_of xs @ stderr_of ys"
  by (simp add: stderr_of_def)

lemma stderr_of_Call: "stderr_of (Call c r # t) = stderr_of t"
  by (simp add: stderr_of_def)

lemma stderr_of_Diag: "stderr_of (Diag d # t) = d # stderr_of t"
  by (simp add: stderr_of_def)

lemma stderr_of_pass_trace: "stderr_of (pass_trace cfg cfd io) = []"
  by (induction io) (auto simp: stderr_of_def pass_trace_def)

subsection \<open>The instances\<close>

lemma EXIT_FAILURE_nonzero: "EXIT_FAILURE \<noteq> 0"
  by (simp add: EXIT_FAILURE_def)

lemma demo_setup_ok: "setup_ok demo_cfg demo_setup"
  by (simp add: setup_ok_def demo_cfg_def demo_setup_def ret_def failed_def strlen_def cstr_def NUL_def)

lemma demo_conn_ok:
  assumes "list_all (\<lambda>d. d \<noteq> [] \<and> length d \<le> BUF_SIZE cfg) chunks" and "fd \<noteq> -1"
  shows "conn_ok cfg (demo_conn chunks fd cl)"
proof -
  from assms(1) have "forwarded cfg (map (\<lambda>d. (got d, ret (int (length d)))) chunks)"
    by (induction chunks) (simp_all add: forwarded_def wf_read_def got_def ret_def)
  with assms(2) show ?thesis
    by (simp add: conn_ok_def demo_conn_def ret_def)
qed

lemma long_cfg_too_long: "strlen (SV_SOCK_PATH long_cfg) > sun_path_size long_cfg - 1"
  by (simp add: long_cfg_def strlen_def cstr_def NUL_def)

section \<open>The claims\<close>

text \<open>
  Claim C1. For every byte sequence that a connected client writes before it signals
  end-of-stream, a transfer that completes normally writes exactly that sequence to the
  sink, in order: a read that returns \<open>n > 0\<close> is followed, before the next read, by a
  write of exactly those \<open>n\<close> bytes; nothing is dropped, duplicated, reordered or added.

  The stream arrives as the chunks of \<open>io\<close>, every write takes its whole chunk, and the
  read \<open>e\<close> returns 0. Then the loop makes exactly the calls of \<open>pass_trace\<close> (read,
  write of the chunk just read, read, ...) and the final read, falls through with
  \<open>numRead = 0\<close>, and the sink has received \<open>payload io\<close>.
\<close>

theorem relay_delivers_stream:
  assumes "forwarded cfg io" and "rv e = 0"
  shows "relay cfg cfd buf (pass_script io @ e # rest) =
           (pass_trace cfg cfd io @ [Call (Read cfd (BUF_SIZE cfg)) e],
            Fell 0 (kernel_copy (BUF_SIZE cfg) (pass_buf cfg buf io) (dat e)) rest)
         \<and> sink_of (pass_trace cfg cfd io @ [Call (Read cfd (BUF_SIZE cfg)) e]) = payload io"
proof -
  have "relay cfg cfd buf (pass_script io @ e # rest) =
      (pass_trace cfg cfd io @ [Call (Read cfd (BUF_SIZE cfg)) e],
       Fell (rv e) (kernel_copy (BUF_SIZE cfg) (pass_buf cfg buf io) (dat e)) rest)"
    using assms by (intro relay_eof) simp_all
  moreover have "sink_of (pass_trace cfg cfd io @ [Call (Read cfd (BUF_SIZE cfg)) e]) = payload io"
    using sink_of_pass_trace [OF assms(1), of cfd] by (simp add: sink_of_def)
  ultimately show ?thesis using assms(2) by simp
qed

theorem relay_delivers_stream_witness:
  "forwarded demo_cfg [(got ''hello '', ret 6), (got ''world'', ret 5)] \<and>
   rv (ret 0) = 0 \<and>
   fst (relay demo_cfg 4 [] (pass_script [(got ''hello '', ret 6), (got ''world'', ret 5)] @ [ret 0])) =
     [Call (Read 4 4096) (got ''hello ''), Call (Write 1 ''hello '') (ret 6),
      Call (Read 4 4096) (got ''world''), Call (Write 1 ''world'') (ret 5),
      Call (Read 4 4096) (ret 0)] \<and>
   sink_of (fst (relay demo_cfg 4 [] (pass_script [(got ''hello '', ret 6), (got ''world'', ret 5)] @ [ret 0]))) =
     ''hello world''"
proof -
  have f: "forwarded demo_cfg [(got ''hello '', ret 6), (got ''world'', ret 5)]"
    by (simp add: forwarded_def wf_read_def got_def ret_def demo_cfg_def)
  have e: "rv (ret 0) = 0" by (simp add: ret_def)
  note t = relay_delivers_stream [OF f e, of 4 "[]" "[]"]
  have p: "pass_trace demo_cfg 4 [(got ''hello '', ret 6), (got ''world'', ret 5)] =
      [Call (Read 4 4096) (got ''hello ''), Call (Write 1 ''hello '') (ret 6),
       Call (Read 4 4096) (got ''world''), Call (Write 1 ''world'') (ret 5)]"
    by (simp add: pass_trace_def demo_cfg_def STDOUT_FILENO_def got_def)
  have q: "payload [(got ''hello '', ret 6), (got ''world'', ret 5)] = ''hello world''"
    by (simp add: payload_def got_def)
  from t p q f e show ?thesis by (simp add: demo_cfg_def)
qed

text \<open>
  Claim C2. If a read from the connection returns an error, the whole server process
  terminates with a non-zero status: the accept loop is not resumed and no further
  connection is served, whatever the environment would have answered next.

  After a good start-up and any number of connections served to their end, a connection is
  accepted, chunks are forwarded, and then a read returns \<open>-1\<close>. The run ends there with
  \<open>errExit("read")\<close>; the rest of the script is never consulted.
\<close>

theorem read_error_aborts_server:
  assumes "setup_ok cfg st" and "list_all (conn_ok cfg) cs"
    and "rv a \<noteq> -1" and "forwarded cfg io" and "rv e = -1"
  shows "main cfg buf0 (setup_script st @ conns_script cs @ a # pass_script io @ e # rest) =
           (setup_trace cfg st @ conns_trace cfg (rv (s_socket st)) cs @
              Call (Accept (rv (s_socket st))) a # pass_trace cfg (rv a) io @
              [Call (Read (rv a) (BUF_SIZE cfg)) e, Diag (ErrExit ''read'')],
            Exit EXIT_FAILURE)
         \<and> EXIT_FAILURE \<noteq> 0"
proof -
  from assms(2) have "\<forall>c \<in> set cs. conn_ok cfg c" by (simp add: list_all_iff)
  from main_read_error [OF assms(1) this assms(3,4,5)] EXIT_FAILURE_nonzero
  show ?thesis by blast
qed

theorem read_error_aborts_server_witness:
  "setup_ok demo_cfg demo_setup \<and>
   list_all (conn_ok demo_cfg) [demo_conn [''A''] 4 (ret 0)] \<and>
   rv (ret 5) \<noteq> -1 \<and> forwarded demo_cfg [(got ''BB'', ret 2)] \<and> rv (failed 104) = -1 \<and>
   main demo_cfg []
     (setup_script demo_setup @ conns_script [demo_conn [''A''] 4 (ret 0)] @
      ret 5 # pass_script [(got ''BB'', ret 2)] @ failed 104 # [ret 6, got ''CCC'', ret 3]) =
     ([Call (Socket 1 1 0) (ret 3), Call (Remove ''/tmp/us_xfr'') (failed 2),
       Call (Bind 3 (server_addr demo_cfg)) (ret 0), Call (Listen 3 5) (ret 0),
       Call (Accept 3) (ret 4), Call (Read 4 4096) (got ''A''), Call (Write 1 ''A'') (ret 1),
       Call (Read 4 4096) (ret 0), Call (Close 4) (ret 0),
       Call (Accept 3) (ret 5), Call (Read 5 4096) (got ''BB''), Call (Write 1 ''BB'') (ret 2),
       Call (Read 5 4096) (failed 104), Diag (ErrExit ''read'')],
      Exit 1)"
proof -
  have c: "list_all (conn_ok demo_cfg) [demo_conn [''A''] 4 (ret 0)]"
    by (simp add: demo_conn_ok demo_cfg_def)
  have a: "rv (ret 5) \<noteq> -1" by (simp add: ret_def)
  have f: "forwarded demo_cfg [(got ''BB'', ret 2)]"
    by (simp add: forwarded_def wf_read_def got_def ret_def demo_cfg_def)
  have e: "rv (failed 104) = -1" by (simp add: failed_def)
  note t = read_error_aborts_server [OF demo_setup_ok c a f e, of "[]" "[ret 6, got ''CCC'', ret 3]"]
  have tr: "setup_trace demo_cfg demo_setup @ conns_trace demo_cfg (rv (s_socket demo_setup)) [demo_conn [''A''] 4 (ret 0)] @
      Call (Accept (rv (s_socket demo_setup))) (ret 5) # pass_trace demo_cfg (rv (ret 5)) [(got ''BB'', ret 2)] @
      [Call (Read (rv (ret 5)) (BUF_SIZE demo_cfg)) (failed 104), Diag (ErrExit ''read'')] =
     [Call (Socket 1 1 0) (ret 3), Call (Remove ''/tmp/us_xfr'') (failed 2),
       Call (Bind 3 (server_addr demo_cfg)) (ret 0), Call (Listen 3 5) (ret 0),
       Call (Accept 3) (ret 4), Call (Read 4 4096) (got ''A''), Call (Write 1 ''A'') (ret 1),
       Call (Read 4 4096) (ret 0), Call (Close 4) (ret 0),
       Call (Accept 3) (ret 5), Call (Read 5 4096) (got ''BB''), Call (Write 1 ''BB'') (ret 2),
       Call (Read 5 4096) (failed 104), Diag (ErrExit ''read'')]"
    by (simp add: setup_trace_def conns_trace_def conn_trace_def pass_trace_def demo_conn_def
        demo_setup_def demo_cfg_def ret_def got_def failed_def AF_UNIX_def SOCK_STREAM_def
        STDOUT_FILENO_def BACKLOG_def ENOENT_def cstr_def NUL_def)
  from t tr demo_setup_ok c a f e show ?thesis
    by (simp add: EXIT_FAILURE_def)
qed

text \<open>
  Claim C3, as stated: when the bind path is longer than the address structure allows,
  start-up fails before any socket is created. The source creates the socket on line 35 and
  tests the length on line 45, so at the failure a socket exists: with a path of 109 bytes
  and a capacity of 108, the run makes the \<open>socket\<close> call, which returns descriptor 3,
  and only then prints the diagnostic.
\<close>

theorem path_too_long_counterexample:
  "strlen (SV_SOCK_PATH long_cfg) > sun_path_size long_cfg - 1 \<and>
   main long_cfg [] [ret 3] =
     ([Call (Socket AF_UNIX SOCK_STREAM 0) (ret 3),
       Diag (Fatal (''Server socket path too long: '' @ SV_SOCK_PATH long_cfg))],
      Exit EXIT_FAILURE) \<and>
   sockets_created (fst (main long_cfg [] [ret 3])) = [3]"
proof -
  have "cstr (SV_SOCK_PATH long_cfg) = SV_SOCK_PATH long_cfg"
    by (simp add: long_cfg_def cstr_def NUL_def)
  with main_too_long [OF long_cfg_too_long, of "[]" "ret 3" "[]"] long_cfg_too_long
  show ?thesis
    by (simp add: ret_def sockets_created_def)
qed

text \<open>
  Claim C3, amended. When the path is too long the run consists of the \<open>socket\<close> call
  and one diagnostic, and ends with a non-zero status: \<open>errExit("socket")\<close> if the call
  failed, otherwise the fatal "path too long" message, with the socket just created in
  existence. No other call is made: no file system entry is removed or created.
\<close>

theorem path_too_long_fatal:
  assumes "strlen (SV_SOCK_PATH cfg) > sun_path_size cfg - 1"
  shows "main cfg buf0 (s # rest) =
           ([Call (Socket AF_UNIX SOCK_STREAM 0) s,
             Diag (if rv s = -1 then ErrExit ''socket''
                   else Fatal (''Server socket path too long: '' @ cstr (SV_SOCK_PATH cfg)))],
            Exit EXIT_FAILURE)
         \<and> EXIT_FAILURE \<noteq> 0
         \<and> sockets_created (fst (main cfg buf0 (s # rest))) = (if rv s = -1 then [] else [rv s])"
  using main_too_long [OF assms, of buf0 s rest] EXIT_FAILURE_nonzero
  by (simp add: sockets_created_def)

theorem path_too_long_fatal_witness:
  "strlen (SV_SOCK_PATH long_cfg) > sun_path_size long_cfg - 1 \<and>
   main long_cfg [] [ret 3, ret 0, ret 0, ret 0, ret 4] =
     ([Call (Socket 1 1 0) (ret 3),
       Diag (Fatal (''Server socket path too long: /tmp/'' @ replicate 104 (CHR ''x'')))],
      Exit 1) \<and>
   sockets_created (fst (main long_cfg [] [ret 3, ret 0, ret 0, ret 0, ret 4])) = [3]"
proof -
  have c: "cstr (SV_SOCK_PATH long_cfg) = ''/tmp/'' @ replicate 104 (CHR ''x'')"
    by (simp add: long_cfg_def cstr_def NUL_def)
  note t = path_too_long_fatal [OF long_cfg_too_long, of "[]" "ret 3" "[ret 0, ret 0, ret 0, ret 4]"]
  from t have m: "main long_cfg [] [ret 3, ret 0, ret 0, ret 0, ret 4] =
     ([Call (Socket 1 1 0) (ret 3),
       Diag (Fatal (''Server socket path too long: /tmp/'' @ replicate 104 (CHR ''x'')))],
      Exit 1)"
    by (simp add: c ret_def AF_UNIX_def SOCK_STREAM_def EXIT_FAILURE_def)
  from t have sc: "sockets_created (fst (main long_cfg [] [ret 3, ret 0, ret 0, ret 0, ret 4])) = [3]"
    by (simp add: ret_def sockets_created_def)
  from long_cfg_too_long m sc show ?thesis by blast
qed

text \<open>
  Claim C4, as stated: a removal that fails for a reason other than absence is fatal, and
  that failure occurs before any socket is created. The removal is on line 49, after the
  \<open>socket\<close> call of line 35: when \<open>remove\<close> fails with \<open>EACCES\<close> (13), the
  socket with descriptor 3 already exists.
\<close>

theorem remove_failure_counterexample:
  "main demo_cfg [] [ret 3, failed 13] =
     ([Call (Socket AF_UNIX SOCK_STREAM 0) (ret 3),
       Call (Remove ''/tmp/us_xfr'') (failed 13),
       Diag (ErrExit ''remove-/tmp/us_xfr'')],
      Exit EXIT_FAILURE) \<and>
   sockets_created (fst (main demo_cfg [] [ret 3, failed 13])) = [3]"
proof -
  have c: "cstr (SV_SOCK_PATH demo_cfg) = ''/tmp/us_xfr''"
    by (simp add: demo_cfg_def cstr_def NUL_def)
  have "main demo_cfg [] (ret 3 # failed 13 # []) =
      ([Call (Socket AF_UNIX SOCK_STREAM 0) (ret 3),
        Call (Remove (cstr (SV_SOCK_PATH demo_cfg))) (failed 13),
        Diag (ErrExit (''remove-'' @ cstr (SV_SOCK_PATH demo_cfg)))],
       Exit EXIT_FAILURE)"
    by (rule main_remove_fails)
      (simp_all add: ret_def failed_def ENOENT_def demo_cfg_def strlen_def cstr_def NUL_def)
  with c show ?thesis
    by (simp add: sockets_created_def ret_def)
qed

text \<open>
  Claim C4, amended. With the socket created and the path short enough, a removal that
  fails with \<open>ENOENT\<close> is not an error: the next call is \<open>bind\<close>. A removal that
  fails with any other \<open>errno\<close> ends the run with \<open>errExit\<close> and a non-zero status,
  after the socket has been created and before \<open>bind\<close>.
\<close>

theorem remove_failure_handling:
  assumes "rv s \<noteq> -1" and "strlen (SV_SOCK_PATH cfg) \<le> sun_path_size cfg - 1"
    and "rv r = -1"
  shows "(err r = ENOENT \<longrightarrow>
            take 3 (fst (main cfg buf0 (s # r # b # rest))) =
              [Call (Socket AF_UNIX SOCK_STREAM 0) s,
               Call (Remove (cstr (SV_SOCK_PATH cfg))) r,
               Call (Bind (rv s) (server_addr cfg)) b])
       \<and> (err r \<noteq> ENOENT \<longrightarrow>
            main cfg buf0 (s # r # rest) =
              ([Call (Socket AF_UNIX SOCK_STREAM 0) s,
                Call (Remove (cstr (SV_SOCK_PATH cfg))) r,
                Diag (ErrExit (''remove-'' @ cstr (SV_SOCK_PATH cfg)))],
               Exit EXIT_FAILURE)
            \<and> EXIT_FAILURE \<noteq> 0
            \<and> sockets_created (fst (main cfg buf0 (s # r # rest))) = [rv s])"
proof (intro conjI impI)
  assume "err r = ENOENT"
  then show "take 3 (fst (main cfg buf0 (s # r # b # rest))) =
      [Call (Socket AF_UNIX SOCK_STREAM 0) s,
       Call (Remove (cstr (SV_SOCK_PATH cfg))) r,
       Call (Bind (rv s) (server_addr cfg)) b]"
    using assms(1,2) by (intro main_reaches_bind) simp_all
next
  assume ne: "err r \<noteq> ENOENT"
  show m: "main cfg buf0 (s # r # rest) =
      ([Call (Socket AF_UNIX SOCK_STREAM 0) s,
        Call (Remove (cstr (SV_SOCK_PATH cfg))) r,
        Diag (ErrExit (''remove-'' @ cstr (SV_SOCK_PATH cfg)))],
       Exit EXIT_FAILURE)"
    using assms ne by (rule main_remove_fails)
  show "EXIT_FAILURE \<noteq> 0" by (rule EXIT_FAILURE_nonzero)
  show "sockets_created (fst (main cfg buf0 (s # r # rest))) = [rv s]"
    using assms(1) by (simp add: m sockets_created_def)
qed

theorem remove_failure_handling_witness:
  "rv (ret 3) \<noteq> -1 \<and> strlen (SV_SOCK_PATH demo_cfg) \<le> sun_path_size demo_cfg - 1 \<and>
   rv (failed 2) = -1 \<and> rv (failed 13) = -1 \<and> ENOENT = 2 \<and>
   take 3 (fst (main demo_cfg [] [ret 3, failed 2, ret 0, ret 0])) =
     [Call (Socket 1 1 0) (ret 3), Call (Remove ''/tmp/us_xfr'') (failed 2),
      Call (Bind 3 (server_addr demo_cfg)) (ret 0)] \<and>
   main demo_cfg [] [ret 3, failed 13, ret 0, ret 0] =
     ([Call (Socket 1 1 0) (ret 3), Call (Remove ''/tmp/us_xfr'') (failed 13),
       Diag (ErrExit ''remove-/tmp/us_xfr'')],
      Exit 1) \<and>
   sockets_created (fst (main demo_cfg [] [ret 3, failed 13, ret 0, ret 0])) = [3]"
proof -
  have s: "rv (ret 3) \<noteq> -1" by (simp add: ret_def)
  have l: "strlen (SV_SOCK_PATH demo_cfg) \<le> sun_path_size demo_cfg - 1"
    by (simp add: demo_cfg_def strlen_def cstr_def NUL_def)
  have r2: "rv (failed 2) = -1" and r13: "rv (failed 13) = -1" by (simp_all add: failed_def)
  have c: "cstr (SV_SOCK_PATH demo_cfg) = ''/tmp/us_xfr''"
    by (simp add: demo_cfg_def cstr_def NUL_def)
  note t2 = remove_failure_handling [OF s l r2, of "[]" "ret 0" "[ret 0]"]
  note t13 = remove_failure_handling [OF s l r13, of "[]" "ret 0" "[ret 0, ret 0]"]
  from t2 have a: "take 3 (fst (main demo_cfg [] [ret 3, failed 2, ret 0, ret 0])) =
     [Call (Socket 1 1 0) (ret 3), Call (Remove ''/tmp/us_xfr'') (failed 2),
      Call (Bind 3 (server_addr demo_cfg)) (ret 0)]"
    by (simp add: c failed_def ENOENT_def AF_UNIX_def SOCK_STREAM_def ret_def)
  from t13 have b: "main demo_cfg [] [ret 3, failed 13, ret 0, ret 0] =
     ([Call (Socket 1 1 0) (ret 3), Call (Remove ''/tmp/us_xfr'') (failed 13),
       Diag (ErrExit ''remove-/tmp/us_xfr'')],
      Exit 1) \<and>
   sockets_created (fst (main demo_cfg [] [ret 3, failed 13, ret 0, ret 0])) = [3]"
    by (simp add: c failed_def ENOENT_def AF_UNIX_def SOCK_STREAM_def ret_def EXIT_FAILURE_def
        sockets_created_def)
  have "ENOENT = 2" by (simp add: ENOENT_def)
  with s l r2 r13 a b show ?thesis by blast
qed

text \<open>
  Claim C5. When the write of a chunk of \<open>n > 0\<close> bytes returns fewer than \<open>n\<close>, the
  whole server process terminates with a non-zero status; the write is neither retried nor
  resumed with the remaining bytes, and the loss is not silent.

  The trace ends with the read of the chunk, the one write of it, and the diagnostic of
  \<open>fatal\<close>; the rest of the script is never consulted.
\<close>

theorem short_write_aborts_server:
  assumes "setup_ok cfg st" and "list_all (conn_ok cfg) cs"
    and "rv a \<noteq> -1" and "forwarded cfg io" and "wf_read cfg r"
    and "0 \<le> rv w" and "rv w < rv r"
  shows "main cfg buf0 (setup_script st @ conns_script cs @ a # pass_script io @ r # w # rest) =
           (setup_trace cfg st @ conns_trace cfg (rv (s_socket st)) cs @
              Call (Accept (rv (s_socket st))) a # pass_trace cfg (rv a) io @
              [Call (Read (rv a) (BUF_SIZE cfg)) r,
               Call (Write STDOUT_FILENO (dat r)) w,
               Diag (Fatal ''partial/failed write'')],
            Exit EXIT_FAILURE)
         \<and> EXIT_FAILURE \<noteq> 0"
proof -
  from assms(2) have cs: "\<forall>c \<in> set cs. conn_ok cfg c" by (simp add: list_all_iff)
  from assms(7) have "rv w \<noteq> rv r" by simp
  from main_write_mismatch [OF assms(1) cs assms(3,4,5) this] EXIT_FAILURE_nonzero
  show ?thesis by blast
qed

theorem short_write_aborts_server_witness:
  "setup_ok demo_cfg demo_setup \<and> list_all (conn_ok demo_cfg) [] \<and>
   rv (ret 4) \<noteq> -1 \<and> forwarded demo_cfg [(got ''hello '', ret 6)] \<and>
   wf_read demo_cfg (got ''world'') \<and> 0 \<le> rv (ret 2) \<and> rv (ret 2) < rv (got ''world'') \<and>
   main demo_cfg []
     (setup_script demo_setup @ conns_script [] @
      ret 4 # pass_script [(got ''hello '', ret 6)] @ got ''world'' # ret 2 # [ret 3, ret 0]) =
     ([Call (Socket 1 1 0) (ret 3), Call (Remove ''/tmp/us_xfr'') (failed 2),
       Call (Bind 3 (server_addr demo_cfg)) (ret 0), Call (Listen 3 5) (ret 0),
       Call (Accept 3) (ret 4),
       Call (Read 4 4096) (got ''hello ''), Call (Write 1 ''hello '') (ret 6),
       Call (Read 4 4096) (got ''world''), Call (Write 1 ''world'') (ret 2),
       Diag (Fatal ''partial/failed write'')],
      Exit 1)"
proof -
  have c: "list_all (conn_ok demo_cfg) []" by simp
  have a: "rv (ret 4) \<noteq> -1" by (simp add: ret_def)
  have f: "forwarded demo_cfg [(got ''hello '', ret 6)]"
    by (simp add: forwarded_def wf_read_def got_def ret_def demo_cfg_def)
  have r: "wf_read demo_cfg (got ''world'')"
    by (simp add: wf_read_def got_def demo_cfg_def)
  have w0: "0 \<le> rv (ret 2)" and w1: "rv (ret 2) < rv (got ''world'')"
    by (simp_all add: ret_def got_def)
  note t = short_write_aborts_server [OF demo_setup_ok c a f r w0 w1, of "[]" "[ret 3, ret 0]"]
  have tr: "setup_trace demo_cfg demo_setup @ conns_trace demo_cfg (rv (s_socket demo_setup)) [] @
      Call (Accept (rv (s_socket demo_setup))) (ret 4) #
      pass_trace demo_cfg (rv (ret 4)) [(got ''hello '', ret 6)] @
      [Call (Read (rv (ret 4)) (BUF_SIZE demo_cfg)) (got ''world''),
       Call (Write STDOUT_FILENO (dat (got ''world''))) (ret 2),
       Diag (Fatal ''partial/failed write'')] =
     [Call (Socket 1 1 0) (ret 3), Call (Remove ''/tmp/us_xfr'') (failed 2),
       Call (Bind 3 (server_addr demo_cfg)) (ret 0), Call (Listen 3 5) (ret 0),
       Call (Accept 3) (ret 4),
       Call (Read 4 4096) (got ''hello ''), Call (Write 1 ''hello '') (ret 6),
       Call (Read 4 4096) (got ''world''), Call (Write 1 ''world'') (ret 2),
       Diag (Fatal ''partial/failed write'')]"
    by (simp add: setup_trace_def conns_trace_def pass_trace_def
        demo_setup_def demo_cfg_def ret_def got_def failed_def AF_UNIX_def SOCK_STREAM_def
        STDOUT_FILENO_def BACKLOG_def ENOENT_def cstr_def NUL_def)
  from t tr have m: "main demo_cfg []
     (setup_script demo_setup @ conns_script [] @
      ret 4 # pass_script [(got ''hello '', ret 6)] @ got ''world'' # ret 2 # [ret 3, ret 0]) =
     ([Call (Socket 1 1 0) (ret 3), Call (Remove ''/tmp/us_xfr'') (failed 2),
       Call (Bind 3 (server_addr demo_cfg)) (ret 0), Call (Listen 3 5) (ret 0),
       Call (Accept 3) (ret 4),
       Call (Read 4 4096) (got ''hello ''), Call (Write 1 ''hello '') (ret 6),
       Call (Read 4 4096) (got ''world''), Call (Write 1 ''world'') (ret 2),
       Diag (Fatal ''partial/failed write'')],
      Exit 1)"
    by (simp add: EXIT_FAILURE_def)
  from demo_setup_ok c a f r w0 w1 m show ?thesis by blast
qed

text \<open>
  Claim C6. After a transfer has ended with a read that returns 0, a failure to close the
  connection is reported and nothing more: whether \<open>close\<close> succeeded or failed, the
  server goes on to the next turn of the accept loop and serves the next connection.

  The result \<open>c\<close> of \<open>close\<close> is arbitrary. The connection \<open>nxt\<close> that follows
  is served in full, and the run then waits in \<open>accept\<close>; the only trace of a failed
  close is the line printed by \<open>errMsg\<close>.
\<close>

theorem close_failure_only_logged:
  assumes "setup_ok cfg st" and "list_all (conn_ok cfg) cs"
    and "rv a \<noteq> -1" and "forwarded cfg io" and "rv e = 0" and "conn_ok cfg nxt"
  shows "main cfg buf0 (setup_script st @ conns_script cs @
                        a # pass_script io @ e # c # conn_script nxt) =
           (setup_trace cfg st @ conns_trace cfg (rv (s_socket st)) cs @
              Call (Accept (rv (s_socket st))) a # pass_trace cfg (rv a) io @
              [Call (Read (rv a) (BUF_SIZE cfg)) e, Call (Close (rv a)) c] @
              (if rv c = -1 then [Diag (ErrMsg ''close'')] else []) @
              conn_trace cfg (rv (s_socket st)) nxt,
            Blocked (Accept (rv (s_socket st))))"
proof -
  let ?sfd = "rv (s_socket st)"
  let ?buf1 = "conns_buf cfg buf0 cs"
  let ?buf2 = "kernel_copy (BUF_SIZE cfg) (pass_buf cfg ?buf1 io) (dat e)"
  let ?cur = "Call (Accept ?sfd) a # pass_trace cfg (rv a) io @
                 [Call (Read (rv a) (BUF_SIZE cfg)) e, Call (Close (rv a)) c] @
                 (if rv c = -1 then [Diag (ErrMsg ''close'')] else [])"
  from assms(2) have cs: "\<forall>c \<in> set cs. conn_ok cfg c" by (simp add: list_all_iff)
  have "main cfg buf0 (setup_script st @ conns_script cs @
                        a # pass_script io @ e # c # conn_script nxt) =
      emit (setup_trace cfg st @ conns_trace cfg ?sfd cs)
        (serve cfg ?sfd ?buf1 (a # pass_script io @ e # c # conn_script nxt))"
    by (rule main_conns [OF assms(1) cs])
  also have "serve cfg ?sfd ?buf1 (a # pass_script io @ e # c # conn_script nxt) =
      emit ?cur (serve cfg ?sfd ?buf2 (conn_script nxt))"
    by (rule serve_eof_close [OF assms(3,4,5)])
  also have "serve cfg ?sfd ?buf2 (conn_script nxt) =
      emit (conn_trace cfg ?sfd nxt) (serve cfg ?sfd (conn_buf cfg ?buf2 nxt) [])"
    using serve_conn [OF assms(6), of ?sfd ?buf2 "[]"] by simp
  finally show ?thesis
    by (simp add: emit_def)
qed

theorem close_failure_only_logged_witness:
  "setup_ok demo_cfg demo_setup \<and> list_all (conn_ok demo_cfg) [] \<and>
   rv (ret 4) \<noteq> -1 \<and> forwarded demo_cfg [(got ''A'', ret 1)] \<and> rv (ret 0) = 0 \<and>
   conn_ok demo_cfg (demo_conn [''BB''] 4 (ret 0)) \<and>
   main demo_cfg []
     (setup_script demo_setup @ conns_script [] @
      ret 4 # pass_script [(got ''A'', ret 1)] @ ret 0 # failed 5 #
      conn_script (demo_conn [''BB''] 4 (ret 0))) =
     ([Call (Socket 1 1 0) (ret 3), Call (Remove ''/tmp/us_xfr'') (failed 2),
       Call (Bind 3 (server_addr demo_cfg)) (ret 0), Call (Listen 3 5) (ret 0),
       Call (Accept 3) (ret 4),
       Call (Read 4 4096) (got ''A''), Call (Write 1 ''A'') (ret 1),
       Call (Read 4 4096) (ret 0), Call (Close 4) (failed 5), Diag (ErrMsg ''close''),
       Call (Accept 3) (ret 4),
       Call (Read 4 4096) (got ''BB''), Call (Write 1 ''BB'') (ret 2),
       Call (Read 4 4096) (ret 0), Call (Close 4) (ret 0)],
      Blocked (Accept 3))"
proof -
  have c: "list_all (conn_ok demo_cfg) []" by simp
  have a: "rv (ret 4) \<noteq> -1" by (simp add: ret_def)
  have f: "forwarded demo_cfg [(got ''A'', ret 1)]"
    by (simp add: forwarded_def wf_read_def got_def ret_def demo_cfg_def)
  have e: "rv (ret 0) = 0" by (simp add: ret_def)
  have n: "conn_ok demo_cfg (demo_conn [''BB''] 4 (ret 0))"
    by (simp add: demo_conn_ok demo_cfg_def)
  note t = close_failure_only_logged [OF demo_setup_ok c a f e n, of "[]" "failed 5"]
  have tr: "setup_trace demo_cfg demo_setup @ conns_trace demo_cfg (rv (s_socket demo_setup)) [] @
      Call (Accept (rv (s_socket demo_setup))) (ret 4) #
      pass_trace demo_cfg (rv (ret 4)) [(got ''A'', ret 1)] @
      [Call (Read (rv (ret 4)) (BUF_SIZE demo_cfg)) (ret 0), Call (Close (rv (ret 4))) (failed 5)] @
      (if rv (failed 5) = -1 then [Diag (ErrMsg ''close'')] else []) @
      conn_trace demo_cfg (rv (s_socket demo_setup)) (demo_conn [''BB''] 4 (ret 0)) =
     [Call (Socket 1 1 0) (ret 3), Call (Remove ''/tmp/us_xfr'') (failed 2),
       Call (Bind 3 (server_addr demo_cfg)) (ret 0), Call (Listen 3 5) (ret 0),
       Call (Accept 3) (ret 4),
       Call (Read 4 4096) (got ''A''), Call (Write 1 ''A'') (ret 1),
       Call (Read 4 4096) (ret 0), Call (Close 4) (failed 5), Diag (ErrMsg ''close''),
       Call (Accept 3) (ret 4),
       Call (Read 4 4096) (got ''BB''), Call (Write 1 ''BB'') (ret 2),
       Call (Read 4 4096) (ret 0), Call (Close 4) (ret 0)]"
    by (simp add: setup_trace_def conns_trace_def conn_trace_def pass_trace_def demo_conn_def
        demo_setup_def demo_cfg_def ret_def got_def failed_def AF_UNIX_def SOCK_STREAM_def
        STDOUT_FILENO_def BACKLOG_def ENOENT_def cstr_def NUL_def)
  have s: "rv (s_socket demo_setup) = 3" by (simp add: demo_setup_def ret_def)
  from t [unfolded tr] have m: "main demo_cfg []
     (setup_script demo_setup @ conns_script [] @
      ret 4 # pass_script [(got ''A'', ret 1)] @ ret 0 # failed 5 #
      conn_script (demo_conn [''BB''] 4 (ret 0))) =
     ([Call (Socket 1 1 0) (ret 3), Call (Remove ''/tmp/us_xfr'') (failed 2),
       Call (Bind 3 (server_addr demo_cfg)) (ret 0), Call (Listen 3 5) (ret 0),
       Call (Accept 3) (ret 4),
       Call (Read 4 4096) (got ''A''), Call (Write 1 ''A'') (ret 1),
       Call (Read 4 4096) (ret 0), Call (Close 4) (failed 5), Diag (ErrMsg ''close''),
       Call (Accept 3) (ret 4),
       Call (Read 4 4096) (got ''BB''), Call (Write 1 ''BB'') (ret 2),
       Call (Read 4 4096) (ret 0), Call (Close 4) (ret 0)],
      Blocked (Accept 3))"
    unfolding s .
  from demo_setup_ok c a f e n m show ?thesis by blast
qed

text \<open>
  Claim C7. For a client that writes nothing and closes, the first read returns 0, the
  transfer loop ends normally without any write, the sink receives nothing, and control
  returns to the acceptor: the server neither waits in the transfer nor terminates.

  The loop falls through after the single read; the turn of the accept loop consists of
  \<open>accept\<close>, that read and \<open>close\<close>, and the loop continues with the rest of the
  script.
\<close>

theorem empty_client_returns_to_acceptor:
  assumes "rv a \<noteq> -1" and "rv e = 0"
  shows "relay cfg (rv a) buf (e # c # rest) =
           ([Call (Read (rv a) (BUF_SIZE cfg)) e],
            Fell 0 (kernel_copy (BUF_SIZE cfg) buf (dat e)) (c # rest))
       \<and> serve cfg sfd buf (a # e # c # rest) =
           emit ([Call (Accept sfd) a, Call (Read (rv a) (BUF_SIZE cfg)) e, Call (Close (rv a)) c] @
                 (if rv c = -1 then [Diag (ErrMsg ''close'')] else []))
             (serve cfg sfd (kernel_copy (BUF_SIZE cfg) buf (dat e)) rest)
       \<and> sink_of ([Call (Accept sfd) a, Call (Read (rv a) (BUF_SIZE cfg)) e, Call (Close (rv a)) c] @
                  (if rv c = -1 then [Diag (ErrMsg ''close'')] else [])) = []"
proof -
  have f: "forwarded cfg []" by (simp add: forwarded_def)
  have "relay cfg (rv a) buf (e # c # rest) =
           ([Call (Read (rv a) (BUF_SIZE cfg)) e],
            Fell 0 (kernel_copy (BUF_SIZE cfg) buf (dat e)) (c # rest))"
    using assms(2) by (simp add: emit_def Let_def)
  moreover have "serve cfg sfd buf (a # e # c # rest) =
           emit ([Call (Accept sfd) a, Call (Read (rv a) (BUF_SIZE cfg)) e, Call (Close (rv a)) c] @
                 (if rv c = -1 then [Diag (ErrMsg ''close'')] else []))
             (serve cfg sfd (kernel_copy (BUF_SIZE cfg) buf (dat e)) rest)"
    using serve_eof_close [OF assms(1) f assms(2), of sfd buf c rest]
    by (simp add: pass_script_def pass_trace_def pass_buf_def)
  moreover have "sink_of ([Call (Accept sfd) a, Call (Read (rv a) (BUF_SIZE cfg)) e, Call (Close (rv a)) c] @
                  (if rv c = -1 then [Diag (ErrMsg ''close'')] else [])) = []"
    by (simp add: sink_of_def)
  ultimately show ?thesis by blast
qed

theorem empty_client_returns_to_acceptor_witness:
  "rv (ret 4) \<noteq> -1 \<and> rv (ret 0) = 0 \<and>
   relay demo_cfg 4 [] [ret 0, ret 0] = ([Call (Read 4 4096) (ret 0)], Fell 0 [] [ret 0]) \<and>
   serve demo_cfg 3 [] [ret 4, ret 0, ret 0] =
     ([Call (Accept 3) (ret 4), Call (Read 4 4096) (ret 0), Call (Close 4) (ret 0)],
      Blocked (Accept 3)) \<and>
   sink_of [Call (Accept 3) (ret 4), Call (Read 4 4096) (ret 0), Call (Close 4) (ret 0)] = []"
proof -
  have a: "rv (ret 4) \<noteq> -1" and e: "rv (ret 0) = 0" by (simp_all add: ret_def)
  note t = empty_client_returns_to_acceptor [OF a e, of demo_cfg "[]" "ret 0" "[]" 3]
  have k: "kernel_copy 4096 [] (dat (ret 0)) = []"
    by (simp add: kernel_copy_def ret_def)
  have v: "rv (ret 4) = 4" "rv (ret 0) \<noteq> -1" "BUF_SIZE demo_cfg = 4096"
    by (simp_all add: ret_def demo_cfg_def)
  from t have t': "relay demo_cfg 4 [] [ret 0, ret 0] = ([Call (Read 4 4096) (ret 0)], Fell 0 [] [ret 0]) \<and>
   serve demo_cfg 3 [] [ret 4, ret 0, ret 0] =
     ([Call (Accept 3) (ret 4), Call (Read 4 4096) (ret 0), Call (Close 4) (ret 0)],
      Blocked (Accept 3)) \<and>
   sink_of [Call (Accept 3) (ret 4), Call (Read 4 4096) (ret 0), Call (Close 4) (ret 0)] = []"
    by (simp only: k v serve.simps(1) emit_pair if_False append_Nil2 append.simps)
  from a e t' show ?thesis by blast
qed

text \<open>
  Claim C8. Connections are served strictly one after the other: the bytes of a connection
  are read only after the transfer of the one before it has finished, and the sink holds the
  payloads of the connections as contiguous blocks, in the order of acceptance, with nothing
  between them.

  The trace of the run is the start-up followed by the traces of the connections, each
  whole, in order; the sink is the concatenation of the payloads.
\<close>

theorem connections_served_in_sequence:
  assumes "setup_ok cfg st" and "list_all (conn_ok cfg) cs"
  shows "main cfg buf0 (setup_script st @ conns_script cs) =
           (setup_trace cfg st @ concat (map (conn_trace cfg (rv (s_socket st))) cs),
            Blocked (Accept (rv (s_socket st))))
       \<and> sink_of (setup_trace cfg st @ concat (map (conn_trace cfg (rv (s_socket st))) cs)) =
           concat (map (\<lambda>c. payload (c_io c)) cs)"
proof -
  from assms(2) have cs: "\<forall>c \<in> set cs. conn_ok cfg c" by (simp add: list_all_iff)
  have "main cfg buf0 (setup_script st @ conns_script cs @ []) =
      emit (setup_trace cfg st @ conns_trace cfg (rv (s_socket st)) cs)
        (serve cfg (rv (s_socket st)) (conns_buf cfg buf0 cs) [])"
    by (rule main_conns [OF assms(1) cs])
  then have run: "main cfg buf0 (setup_script st @ conns_script cs) =
      (setup_trace cfg st @ concat (map (conn_trace cfg (rv (s_socket st))) cs),
       Blocked (Accept (rv (s_socket st))))"
    by (simp add: emit_def conns_trace_def)
  have "sink_of (setup_trace cfg st @ conns_trace cfg (rv (s_socket st)) cs) =
      concat (map (\<lambda>c. payload (c_io c)) cs)"
    by (simp add: sink_of_append sink_of_setup_trace sink_of_conns_trace [OF cs])
  then have snk: "sink_of (setup_trace cfg st @ concat (map (conn_trace cfg (rv (s_socket st))) cs)) =
      concat (map (\<lambda>c. payload (c_io c)) cs)"
    by (simp add: conns_trace_def)
  from run snk show ?thesis by blast
qed

theorem connections_served_in_sequence_witness:
  "setup_ok demo_cfg demo_setup \<and>
   list_all (conn_ok demo_cfg) [demo_conn [''A''] 4 (ret 0), demo_conn [''B'', ''B''] 4 (ret 0)] \<and>
   main demo_cfg []
     (setup_script demo_setup @
      conns_script [demo_conn [''A''] 4 (ret 0), demo_conn [''B'', ''B''] 4 (ret 0)]) =
     ([Call (Socket 1 1 0) (ret 3), Call (Remove ''/tmp/us_xfr'') (failed 2),
       Call (Bind 3 (server_addr demo_cfg)) (ret 0), Call (Listen 3 5) (ret 0),
       Call (Accept 3) (ret 4),
       Call (Read 4 4096) (got ''A''), Call (Write 1 ''A'') (ret 1),
       Call (Read 4 4096) (ret 0), Call (Close 4) (ret 0),
       Call (Accept 3) (ret 4),
       Call (Read 4 4096) (got ''B''), Call (Write 1 ''B'') (ret 1),
       Call (Read 4 4096) (got ''B''), Call (Write 1 ''B'') (ret 1),
       Call (Read 4 4096) (ret 0), Call (Close 4) (ret 0)],
      Blocked (Accept 3)) \<and>
   sink_of
     [Call (Socket 1 1 0) (ret 3), Call (Remove ''/tmp/us_xfr'') (failed 2),
       Call (Bind 3 (server_addr demo_cfg)) (ret 0), Call (Listen 3 5) (ret 0),
       Call (Accept 3) (ret 4),
       Call (Read 4 4096) (got ''A''), Call (Write 1 ''A'') (ret 1),
       Call (Read 4 4096) (ret 0), Call (Close 4) (ret 0),
       Call (Accept 3) (ret 4),
       Call (Read 4 4096) (got ''B''), Call (Write 1 ''B'') (ret 1),
       Call (Read 4 4096) (got ''B''), Call (Write 1 ''B'') (ret 1),
       Call (Read 4 4096) (ret 0), Call (Close 4) (ret 0)] = ''ABB''"
proof -
  have c: "list_all (conn_ok demo_cfg) [demo_conn [''A''] 4 (ret 0), demo_conn [''B'', ''B''] 4 (ret 0)]"
    by (simp add: demo_conn_ok demo_cfg_def)
  note t = connections_served_in_sequence [OF demo_setup_ok c, of "[]"]
  have tr: "setup_trace demo_cfg demo_setup @
      concat (map (conn_trace demo_cfg (rv (s_socket demo_setup)))
        [demo_conn [''A''] 4 (ret 0), demo_conn [''B'', ''B''] 4 (ret 0)]) =
     [Call (Socket 1 1 0) (ret 3), Call (Remove ''/tmp/us_xfr'') (failed 2),
       Call (Bind 3 (server_addr demo_cfg)) (ret 0), Call (Listen 3 5) (ret 0),
       Call (Accept 3) (ret 4),
       Call (Read 4 4096) (got ''A''), Call (Write 1 ''A'') (ret 1),
       Call (Read 4 4096) (ret 0), Call (Close 4) (ret 0),
       Call (Accept 3) (ret 4),
       Call (Read 4 4096) (got ''B''), Call (Write 1 ''B'') (ret 1),
       Call (Read 4 4096) (got ''B''), Call (Write 1 ''B'') (ret 1),
       Call (Read 4 4096) (ret 0), Call (Close 4) (ret 0)]"
    by (simp add: setup_trace_def conn_trace_def pass_trace_def demo_conn_def
        demo_setup_def demo_cfg_def ret_def got_def failed_def AF_UNIX_def SOCK_STREAM_def
        STDOUT_FILENO_def BACKLOG_def ENOENT_def cstr_def NUL_def)
  have pl: "concat (map (\<lambda>c. payload (c_io c))
      [demo_conn [''A''] 4 (ret 0), demo_conn [''B'', ''B''] 4 (ret 0)]) = ''ABB''"
    by (simp add: payload_def demo_conn_def got_def)
  have s: "rv (s_socket demo_setup) = 3" by (simp add: demo_setup_def ret_def)
  from t [unfolded tr pl] have m: "main demo_cfg []
     (setup_script demo_setup @
      conns_script [demo_conn [''A''] 4 (ret 0), demo_conn [''B'', ''B''] 4 (ret 0)]) =
     ([Call (Socket 1 1 0) (ret 3), Call (Remove ''/tmp/us_xfr'') (failed 2),
       Call (Bind 3 (server_addr demo_cfg)) (ret 0), Call (Listen 3 5) (ret 0),
       Call (Accept 3) (ret 4),
       Call (Read 4 4096) (got ''A''), Call (Write 1 ''A'') (ret 1),
       Call (Read 4 4096) (ret 0), Call (Close 4) (ret 0),
       Call (Accept 3) (ret 4),
       Call (Read 4 4096) (got ''B''), Call (Write 1 ''B'') (ret 1),
       Call (Read 4 4096) (got ''B''), Call (Write 1 ''B'') (ret 1),
       Call (Read 4 4096) (ret 0), Call (Close 4) (ret 0)],
      Blocked (Accept 3)) \<and>
   sink_of
     [Call (Socket 1 1 0) (ret 3), Call (Remove ''/tmp/us_xfr'') (failed 2),
       Call (Bind 3 (server_addr demo_cfg)) (ret 0), Call (Listen 3 5) (ret 0),
       Call (Accept 3) (ret 4),
       Call (Read 4 4096) (got ''A''), Call (Write 1 ''A'') (ret 1),
       Call (Read 4 4096) (ret 0), Call (Close 4) (ret 0),
       Call (Accept 3) (ret 4),
       Call (Read 4 4096) (got ''B''), Call (Write 1 ''B'') (ret 1),
       Call (Read 4 4096) (got ''B''), Call (Write 1 ''B'') (ret 1),
       Call (Read 4 4096) (ret 0), Call (Close 4) (ret 0)] = ''ABB''"
    unfolding s .
  from demo_setup_ok c m show ?thesis by blast
qed

text \<open>
  Claim C9. A write that fails outright (it returns \<open>-1\<close>) is treated exactly as a
  short write: the process terminates with the same status and the same "partial/failed
  write" diagnostic, so the two cannot be told apart from standard error and the exit
  status.

  Two runs that differ only in the result of the last write, \<open>-1\<close> in one and a short
  count in the other (and in whatever the script holds after it).
\<close>

theorem failed_write_like_short_write:
  assumes "setup_ok cfg st" and "list_all (conn_ok cfg) cs"
    and "rv a \<noteq> -1" and "forwarded cfg io" and "wf_read cfg r"
    and "rv w1 = -1" and "0 \<le> rv w2" and "rv w2 < rv r"
  shows "snd (main cfg buf0 (setup_script st @ conns_script cs @ a # pass_script io @ r # w1 # rest1)) =
           Exit EXIT_FAILURE
       \<and> snd (main cfg buf0 (setup_script st @ conns_script cs @ a # pass_script io @ r # w2 # rest2)) =
           Exit EXIT_FAILURE
       \<and> stderr_of (fst (main cfg buf0
            (setup_script st @ conns_script cs @ a # pass_script io @ r # w1 # rest1))) =
           stderr_of (conns_trace cfg (rv (s_socket st)) cs) @ [Fatal ''partial/failed write'']
       \<and> stderr_of (fst (main cfg buf0
            (setup_script st @ conns_script cs @ a # pass_script io @ r # w2 # rest2))) =
           stderr_of (conns_trace cfg (rv (s_socket st)) cs) @ [Fatal ''partial/failed write'']"
proof -
  from assms(2) have cs: "\<forall>c \<in> set cs. conn_ok cfg c" by (simp add: list_all_iff)
  from assms(5) have "0 < rv r" unfolding wf_read_def by blast
  with assms(6) have n1: "rv w1 \<noteq> rv r" by simp
  from assms(8) have n2: "rv w2 \<noteq> rv r" by simp
  have se: "stderr_of (setup_trace cfg st) = []"
    by (simp add: setup_trace_def stderr_of_def)
  note m1 = main_write_mismatch [OF assms(1) cs assms(3,4,5) n1, of buf0 rest1]
  note m2 = main_write_mismatch [OF assms(1) cs assms(3,4,5) n2, of buf0 rest2]
  have d: "stderr_of (setup_trace cfg st @ conns_trace cfg (rv (s_socket st)) cs @
              Call (Accept (rv (s_socket st))) a # pass_trace cfg (rv a) io @
              [Call (Read (rv a) (BUF_SIZE cfg)) r,
               Call (Write STDOUT_FILENO (dat r)) w,
               Diag (Fatal ''partial/failed write'')]) =
      stderr_of (conns_trace cfg (rv (s_socket st)) cs) @ [Fatal ''partial/failed write'']" for w
    by (simp add: stderr_of_append stderr_of_Call stderr_of_Diag stderr_of_pass_trace se)
      (simp add: stderr_of_def)
  show ?thesis
    by (simp only: m1 m2 fst_conv snd_conv d)
qed

theorem failed_write_like_short_write_witness:
  "setup_ok demo_cfg demo_setup \<and> list_all (conn_ok demo_cfg) [demo_conn [] 4 (failed 5)] \<and>
   rv (ret 5) \<noteq> -1 \<and> forwarded demo_cfg [] \<and> wf_read demo_cfg (got ''world'') \<and>
   rv (failed 32) = -1 \<and> 0 \<le> rv (ret 2) \<and> rv (ret 2) < rv (got ''world'') \<and>
   snd (main demo_cfg [] (setup_script demo_setup @ conns_script [demo_conn [] 4 (failed 5)] @
          ret 5 # pass_script [] @ got ''world'' # failed 32 # [])) = Exit 1 \<and>
   snd (main demo_cfg [] (setup_script demo_setup @ conns_script [demo_conn [] 4 (failed 5)] @
          ret 5 # pass_script [] @ got ''world'' # ret 2 # [])) = Exit 1 \<and>
   stderr_of (fst (main demo_cfg [] (setup_script demo_setup @
          conns_script [demo_conn [] 4 (failed 5)] @
          ret 5 # pass_script [] @ got ''world'' # failed 32 # []))) =
     [ErrMsg ''close'', Fatal ''partial/failed write''] \<and>
   stderr_of (fst (main demo_cfg [] (setup_script demo_setup @
          conns_script [demo_conn [] 4 (failed 5)] @
          ret 5 # pass_script [] @ got ''world'' # ret 2 # []))) =
     [ErrMsg ''close'', Fatal ''partial/failed write'']"
proof -
  have c: "list_all (conn_ok demo_cfg) [demo_conn [] 4 (failed 5)]"
    by (simp add: demo_conn_ok)
  have a: "rv (ret 5) \<noteq> -1" by (simp add: ret_def)
  have f: "forwarded demo_cfg []" by (simp add: forwarded_def)
  have r: "wf_read demo_cfg (got ''world'')"
    by (simp add: wf_read_def got_def demo_cfg_def)
  have w1: "rv (failed 32) = -1" by (simp add: failed_def)
  have w0: "0 \<le> rv (ret 2)" and w2: "rv (ret 2) < rv (got ''world'')"
    by (simp_all add: ret_def got_def)
  note t = failed_write_like_short_write [OF demo_setup_ok c a f r w1 w0 w2, of "[]" "[]" "[]"]
  have d: "stderr_of (conns_trace demo_cfg (rv (s_socket demo_setup)) [demo_conn [] 4 (failed 5)]) =
      [ErrMsg ''close'']"
    by (simp add: conns_trace_def conn_trace_def pass_trace_def demo_conn_def failed_def
        stderr_of_def)
  have x: "Exit EXIT_FAILURE = Exit 1" by (simp add: EXIT_FAILURE_def)
  from t have t': "snd (main demo_cfg [] (setup_script demo_setup @ conns_script [demo_conn [] 4 (failed 5)] @
          ret 5 # pass_script [] @ got ''world'' # failed 32 # [])) = Exit 1 \<and>
   snd (main demo_cfg [] (setup_script demo_setup @ conns_script [demo_conn [] 4 (failed 5)] @
          ret 5 # pass_script [] @ got ''world'' # ret 2 # [])) = Exit 1 \<and>
   stderr_of (fst (main demo_cfg [] (setup_script demo_setup @
          conns_script [demo_conn [] 4 (failed 5)] @
          ret 5 # pass_script [] @ got ''world'' # failed 32 # []))) =
     [ErrMsg ''close'', Fatal ''partial/failed write''] \<and>
   stderr_of (fst (main demo_cfg [] (setup_script demo_setup @
          conns_script [demo_conn [] 4 (failed 5)] @
          ret 5 # pass_script [] @ got ''world'' # ret 2 # []))) =
     [ErrMsg ''close'', Fatal ''partial/failed write'']"
    by (simp only: d x append.simps)
  from demo_setup_ok c a f r w1 w0 w2 t' show ?thesis by blast
qed

text \<open>
  Claim C10. When the length of the bind path is at most the capacity of the path array
  minus one, the address passed to \<open>bind\<close> holds exactly the path, followed by NULs up
  to the end of the array (at least one); the path is not truncated.

  The third call of the run is \<open>bind\<close> on the new socket, with family \<open>AF_UNIX\<close>
  and a path array of \<open>sun_path_size\<close> bytes: the path's bytes, then only NULs.
\<close>

theorem bind_address_exact:
  assumes "0 < sun_path_size cfg" and "strlen (SV_SOCK_PATH cfg) \<le> sun_path_size cfg - 1"
    and "rv s \<noteq> -1" and "rv r \<noteq> -1 \<or> err r = ENOENT"
  shows "take 3 (fst (main cfg buf0 (s # r # b # rest))) =
           [Call (Socket AF_UNIX SOCK_STREAM 0) s,
            Call (Remove (cstr (SV_SOCK_PATH cfg))) r,
            Call (Bind (rv s)
              \<lparr>sun_family = AF_UNIX,
               sun_path = cstr (SV_SOCK_PATH cfg) @
                 replicate (sun_path_size cfg - strlen (SV_SOCK_PATH cfg)) NUL\<rparr>) b]
       \<and> length (cstr (SV_SOCK_PATH cfg) @
            replicate (sun_path_size cfg - strlen (SV_SOCK_PATH cfg)) NUL) = sun_path_size cfg
       \<and> 0 < sun_path_size cfg - strlen (SV_SOCK_PATH cfg)"
proof -
  have "take 3 (fst (main cfg buf0 (s # r # b # rest))) =
           [Call (Socket AF_UNIX SOCK_STREAM 0) s,
            Call (Remove (cstr (SV_SOCK_PATH cfg))) r,
            Call (Bind (rv s) (server_addr cfg)) b]"
    using assms(3,2,4) by (rule main_reaches_bind)
  moreover note server_addr_fits [OF assms(1,2)]
  moreover from assms(1,2) have "strlen (SV_SOCK_PATH cfg) < sun_path_size cfg" by arith
  ultimately show ?thesis by (simp add: strlen_def)
qed

theorem bind_address_exact_witness:
  "0 < sun_path_size demo_cfg \<and> strlen (SV_SOCK_PATH demo_cfg) \<le> sun_path_size demo_cfg - 1 \<and>
   rv (ret 3) \<noteq> -1 \<and> rv (failed 2) = -1 \<and> err (failed 2) = ENOENT \<and>
   take 3 (fst (main demo_cfg [] [ret 3, failed 2, ret 0, ret 0])) =
     [Call (Socket 1 1 0) (ret 3), Call (Remove ''/tmp/us_xfr'') (failed 2),
      Call (Bind 3 \<lparr>sun_family = 1, sun_path = ''/tmp/us_xfr'' @ replicate 97 (CHR 0x00)\<rparr>) (ret 0)]"
proof -
  have n: "0 < sun_path_size demo_cfg" by (simp add: demo_cfg_def)
  have l: "strlen (SV_SOCK_PATH demo_cfg) \<le> sun_path_size demo_cfg - 1"
    by (simp add: demo_cfg_def strlen_def cstr_def NUL_def)
  have s: "rv (ret 3) \<noteq> -1" by (simp add: ret_def)
  have r: "rv (failed 2) \<noteq> -1 \<or> err (failed 2) = ENOENT"
    by (simp add: failed_def ENOENT_def)
  note t = bind_address_exact [OF n l s r, of "[]" "ret 0" "[ret 0]"]
  have c: "cstr (SV_SOCK_PATH demo_cfg) = ''/tmp/us_xfr''"
    by (simp add: demo_cfg_def cstr_def NUL_def)
  have d: "sun_path_size demo_cfg - strlen (SV_SOCK_PATH demo_cfg) = 97"
    by (simp add: demo_cfg_def strlen_def cstr_def NUL_def)
  have v: "AF_UNIX = 1" "SOCK_STREAM = 1" "rv (ret 3) = 3" "NUL = CHR 0x00"
    by (simp_all add: AF_UNIX_def SOCK_STREAM_def ret_def NUL_def)
  from t [unfolded c d v] have m: "take 3 (fst (main demo_cfg [] [ret 3, failed 2, ret 0, ret 0])) =
     [Call (Socket 1 1 0) (ret 3), Call (Remove ''/tmp/us_xfr'') (failed 2),
      Call (Bind 3 \<lparr>sun_family = 1, sun_path = ''/tmp/us_xfr'' @ replicate 97 (CHR 0x00)\<rparr>) (ret 0)]"
    by blast
  have r': "rv (failed 2) = -1" "err (failed 2) = ENOENT"
    by (simp_all add: failed_def ENOENT_def)
  from n l s r' m show ?thesis by blast
qed

end
